theory Spec2Isabelle
  imports Complex_Main "HOL-Library.AList"
begin

section \<open>The ring system of \<^verbatim>\<open>src/main.py\<close>\<close>

text \<open>
  The program wraps sampled points \<open>(x, y)\<close> of a function around a circle: \<open>x\<close> is
  turned into an angle by the period, \<open>y\<close> is the radius. The mean of the wrapped points
  is recorded per period in a dictionary.

  Numbers: Python's \<^verbatim>\<open>float\<close> and \<^verbatim>\<open>complex\<close> are modelled by \<^typ>\<open>real\<close> and
  \<^typ>\<open>complex\<close>, that is, by exact arithmetic. Rounding, infinities and NaN are outside
  the model; every statement below is a statement about the exact result of the
  arithmetic the code writes down. \<^verbatim>\<open>int\<close> is \<^typ>\<open>int\<close>.

  Exceptions are values: an operation that mutates \<^verbatim>\<open>self\<close> returns the exception it
  raised, if any, together with the state it left behind (a Python exception does not
  undo the assignments made before it).
\<close>

subsection \<open>The Python runtime the code relies on\<close>

datatype py_error = ZeroDivisionError | IndexError | ValueError | AttributeError

definition math_pi :: real where
  "math_pi = pi"

definition math_e :: real where
  "math_e = exp 1"

text \<open>\<^verbatim>\<open>math.atan2(y, x)\<close>: the angle of the point \<open>(x, y)\<close> in \<open>(-\<pi>, \<pi>]\<close>.\<close>

definition atan2 :: "real \<Rightarrow> real \<Rightarrow> real" where
  "atan2 y x =
     (if 0 < x then arctan (y / x)
      else if x < 0 then (if 0 \<le> y then arctan (y / x) + pi else arctan (y / x) - pi)
      else if 0 < y then pi / 2
      else if y < 0 then - (pi / 2)
      else 0)"

text \<open>
  \<^verbatim>\<open>a ** b\<close> on complex numbers, as the interpreter computes it: an exponent that is a
  small integer goes through repeated multiplication (a negative one through the
  quotient \<open>1 / a\<^sup>-\<^sup>n\<close>, which raises on a zero divisor); every other exponent goes
  through polar coordinates, \<open>|a|\<^sup>b\<close> with the phase \<open>atan2\<close> of \<open>a\<close>.
\<close>

definition c_powi :: "complex \<Rightarrow> int \<Rightarrow> py_error + complex" where
  "c_powi x n =
     (if 0 < n then Inr (x ^ nat n)
      else if x ^ nat (- n) = 0 then Inl ZeroDivisionError
      else Inr (1 / x ^ nat (- n)))"

definition c_pow :: "complex \<Rightarrow> complex \<Rightarrow> py_error + complex" where
  "c_pow a b =
     (if Re b = 0 \<and> Im b = 0 then Inr 1
      else if Re a = 0 \<and> Im a = 0 then
        (if Im b \<noteq> 0 \<or> Re b < 0 then Inl ZeroDivisionError else Inr 0)
      else
        let vabs = sqrt ((Re a)\<^sup>2 + (Im a)\<^sup>2);
            len = vabs powr Re b;
            atn = atan2 (Im a) (Re a);
            phase = atn * Re b;
            len' = (if Im b \<noteq> 0 then len / exp (atn * Im b) else len);
            phase' = (if Im b \<noteq> 0 then phase + Im b * ln vabs else phase)
        in Inr (Complex (len' * cos phase') (len' * sin phase')))"

definition complex_pow :: "complex \<Rightarrow> complex \<Rightarrow> py_error + complex" where
  "complex_pow a b =
     (if Im b = 0 \<and> Re b = of_int \<lfloor>Re b\<rfloor> \<and> \<bar>Re b\<bar> \<le> 100
      then c_powi a \<lfloor>Re b\<rfloor>
      else c_pow a b)"

text \<open>
  The builtins \<^verbatim>\<open>max\<close> and \<^verbatim>\<open>min\<close> on a list: \<^verbatim>\<open>ValueError\<close> on the empty list,
  otherwise a left-to-right scan that starts from the first element.
\<close>

fun py_max :: "real list \<Rightarrow> py_error + real" where
  "py_max [] = Inl ValueError"
| "py_max (x # xs) = Inr (fold max xs x)"

fun py_min :: "real list \<Rightarrow> py_error + real" where
  "py_min [] = Inl ValueError"
| "py_min (x # xs) = Inr (fold min xs x)"

text \<open>
  \<^verbatim>\<open>numpy.arange(start, stop, step)\<close>: \<open>\<lceil>(stop - start) / step\<rceil>\<close> values
  \<open>start + i \<sdot> step\<close>, none when that length is not positive; the division raises when
  \<open>step\<close> is zero.
\<close>

definition np_arange :: "real \<Rightarrow> real \<Rightarrow> real \<Rightarrow> py_error + real list" where
  "np_arange start stop step =
     (if step = 0 then Inl ZeroDivisionError
      else let n = \<lceil>(stop - start) / step\<rceil>
           in Inr (map (\<lambda>i. start + real i * step) [0..<nat n]))"

subsection \<open>The state\<close>

text \<open>
  What the code hands to the plotting library: the data of the two line plots, of the
  two scatter plots, of the two curves of the transform, and the limits of the two axes.
  \<^verbatim>\<open>self.fig\<close> is \<open>None\<close> until \<^verbatim>\<open>setup_plot\<close> has run; the artists exist from then on.
\<close>

record renderer =
  plot_xdata :: "real list"
  plot_ydata :: "real list"
  scatter_offsets :: "(real \<times> real) list"
  ax0_xlim :: "real \<times> real"
  ax0_ylim :: "real \<times> real"
  fourier_real_xdata :: "real list"
  fourier_real_ydata :: "real list"
  fourier_imaginary_xdata :: "real list"
  fourier_imaginary_ydata :: "real list"
  ax1_xlim :: "real \<times> real"
  ax1_ylim :: "real \<times> real"
  fourier_scatter_offsets :: "real list"

text \<open>
  \<^verbatim>\<open>fourier_data\<close> is a \<^verbatim>\<open>dict\<close> from the period to the list \<^verbatim>\<open>[mean_x, mean_y]\<close>: an
  association list in insertion order, written with \<^const>\<open>AList.update\<close> (an existing key
  keeps its place and gets the new value, a new key goes to the end).
\<close>

record ring_system =
  fig :: "renderer option"
  x_data :: "real list"
  y_data :: "real list"
  fourier_data :: "(real \<times> (real \<times> real)) list"
  period :: real
  shift :: real

subsection \<open>The operations\<close>

text \<open>\<^verbatim>\<open>reset_points\<close> (lines 81-84).\<close>

definition reset_points :: "ring_system \<Rightarrow> ring_system" where
  "reset_points s = s\<lparr>x_data := [], y_data := [], fourier_data := []\<rparr>"

text \<open>
  \<^verbatim>\<open>coordinate_to_ring\<close> (lines 49-60). The division raises when the period is zero;
  \<^verbatim>\<open>y * c\<close> converts the float \<open>y\<close> to a complex number and multiplies.
\<close>

definition coordinate_to_ring :: "ring_system \<Rightarrow> real \<Rightarrow> real \<Rightarrow> py_error + real \<times> real" where
  "coordinate_to_ring s x y =
     (if period s = 0 then Inl ZeroDivisionError
      else
        let x_radian = ((x + shift s) / period s) * 2 * math_pi
        in case complex_pow (Complex math_e 0) (Complex 0 x_radian) of
             Inl e \<Rightarrow> Inl e
           | Inr c \<Rightarrow>
               let coordinate = complex_of_real y * c
               in Inr (Re coordinate, Im coordinate))"

text \<open>\<^verbatim>\<open>add_point\<close> (lines 62-64).\<close>

definition add_point :: "real \<Rightarrow> real \<Rightarrow> ring_system \<Rightarrow> ring_system" where
  "add_point x y s = s\<lparr>x_data := x_data s @ [x], y_data := y_data s @ [y]\<rparr>"

text \<open>
  \<^verbatim>\<open>add_function\<close> (lines 66-79). The samples are cleared first; the step divides by
  \<^verbatim>\<open>samples\<close>; the stop of the range is \<^verbatim>\<open>to_x + step\<close>. The callable \<open>f\<close> is a total
  function on the reals.
\<close>

definition add_function ::
  "real \<Rightarrow> real \<Rightarrow> int \<Rightarrow> (real \<Rightarrow> real) \<Rightarrow> ring_system \<Rightarrow> py_error option \<times> ring_system" where
  "add_function from_x to_x samples f s =
     (let s0 = reset_points s
      in if samples = 0 then (Some ZeroDivisionError, s0)
         else
           let step = (to_x - from_x) / of_int samples
           in case np_arange from_x (to_x + step) step of
                Inl e \<Rightarrow> (Some e, s0)
              | Inr xs \<Rightarrow> (None, fold (\<lambda>x. add_point x (f x)) xs s0))"

text \<open>
  \<^verbatim>\<open>setup_plot\<close> (lines 14-28): the figure with empty plots. The axes start with the
  plotting library's default limits \<open>(0, 1)\<close>.
\<close>

definition empty_plot :: renderer where
  "empty_plot =
     \<lparr>plot_xdata = [], plot_ydata = [], scatter_offsets = [],
      ax0_xlim = (0, 1), ax0_ylim = (0, 1),
      fourier_real_xdata = [], fourier_real_ydata = [],
      fourier_imaginary_xdata = [], fourier_imaginary_ydata = [],
      ax1_xlim = (0, 1), ax1_ylim = (0, 1),
      fourier_scatter_offsets = []\<rparr>"

definition setup_plot :: "ring_system \<Rightarrow> ring_system" where
  "setup_plot s = s\<lparr>fig := Some empty_plot\<rparr>"

text \<open>
  The loop of \<^verbatim>\<open>draw_points\<close> (lines 96-103), walking \<^verbatim>\<open>x_data\<close> and \<^verbatim>\<open>y_data\<close> by the
  same index: \<^verbatim>\<open>y_data[i]\<close> raises when \<^verbatim>\<open>y_data\<close> is the shorter list. \<open>n\<close> and \<open>m\<close> are
  \<^verbatim>\<open>len(self.x_data)\<close> and \<^verbatim>\<open>len(self.y_data)\<close>; the accumulator holds \<^verbatim>\<open>mean_x\<close>,
  \<^verbatim>\<open>mean_y\<close>, \<^verbatim>\<open>x_ring_vec\<close> and \<^verbatim>\<open>y_ring_vec\<close>.
\<close>

fun ring_loop ::
  "ring_system \<Rightarrow> nat \<Rightarrow> nat \<Rightarrow> real list \<Rightarrow> real list \<Rightarrow>
   real \<times> real \<times> real list \<times> real list \<Rightarrow> py_error + real \<times> real \<times> real list \<times> real list" where
  "ring_loop s n m [] ys acc = Inr acc"
| "ring_loop s n m (x # xs) [] acc = Inl IndexError"
| "ring_loop s n m (x # xs) (y # ys) (mean_x, mean_y, x_ring_vec, y_ring_vec) =
     (case coordinate_to_ring s x y of
        Inl e \<Rightarrow> Inl e
      | Inr (a, b) \<Rightarrow>
          ring_loop s n m xs ys
            (mean_x + a / real n, mean_y + b / real m, x_ring_vec @ [a], y_ring_vec @ [b]))"

text \<open>
  Lines 90-92 of \<^verbatim>\<open>draw_points\<close>: a period of zero is replaced by the span of the
  x-coordinates, and the shift by minus their minimum.
\<close>

definition auto_period :: "ring_system \<Rightarrow> py_error option \<times> ring_system" where
  "auto_period s =
     (if period s = 0 then
        (case py_max (x_data s) of
           Inl e \<Rightarrow> (Some e, s)
         | Inr mx \<Rightarrow>
             (case py_min (x_data s) of
                Inl e \<Rightarrow> (Some e, s)
              | Inr mn \<Rightarrow> (None, s\<lparr>period := mx - mn, shift := - mn\<rparr>)))
      else (None, s))"

text \<open>
  Lines 108-125 of \<^verbatim>\<open>draw_points\<close>: the plots and the dictionary are updated from the
  wrapped points, their mean and \<^verbatim>\<open>boundary\<close>. \<open>r\<close> is the renderer. \<^verbatim>\<open>fourier_list\<close>
  pairs every key, in ascending order, with its entry: the items of the dictionary
  sorted by key.
\<close>

definition update_plots ::
  "ring_system \<Rightarrow> renderer \<Rightarrow> real \<Rightarrow> real \<Rightarrow> real list \<Rightarrow> real list \<Rightarrow> real \<Rightarrow> ring_system" where
  "update_plots s r mean_x mean_y x_ring_vec y_ring_vec boundary =
     (let fd = AList.update (period s) (mean_x, mean_y) (fourier_data s);
          fourier_list = sort_key fst fd;
          r' = r\<lparr>plot_ydata := y_ring_vec,
                 plot_xdata := x_ring_vec,
                 scatter_offsets := [(mean_x, mean_y)],
                 ax0_ylim := (- boundary, boundary),
                 ax0_xlim := (- boundary, boundary),
                 fourier_real_ydata := map (\<lambda>x. fst (snd x)) fourier_list,
                 fourier_real_xdata := map fst fourier_list,
                 fourier_imaginary_ydata := map (\<lambda>x. snd (snd x)) fourier_list,
                 fourier_imaginary_xdata := map fst fourier_list,
                 ax1_ylim := (- boundary, boundary),
                 ax1_xlim := (0, fst (last fourier_list)),
                 fourier_scatter_offsets := [period s, max mean_x mean_y]\<rparr>
      in s\<lparr>fig := Some r', fourier_data := fd\<rparr>)"

text \<open>\<^verbatim>\<open>draw_points\<close> (lines 86-125).\<close>

definition draw_points :: "ring_system \<Rightarrow> py_error option \<times> ring_system" where
  "draw_points s =
     (if x_data s = [] then (None, s)
      else
        (case auto_period s of
           (Some e, s1) \<Rightarrow> (Some e, s1)
         | (None, s1) \<Rightarrow>
             (case ring_loop s1 (length (x_data s1)) (length (y_data s1))
                     (x_data s1) (y_data s1) (0, 0, [], []) of
                Inl e \<Rightarrow> (Some e, s1)
              | Inr (mean_x, mean_y, x_ring_vec, y_ring_vec) \<Rightarrow>
                  let s2 = (if fig s1 = None then setup_plot s1 else s1)
                  in (case fig s2 of
                        None \<Rightarrow> (Some AttributeError, s2)
                      | Some r \<Rightarrow>
                          (case py_max (y_data s2) of
                             Inl e \<Rightarrow> (Some e, s2)
                           | Inr boundary \<Rightarrow>
                               (None, update_plots s2 r mean_x mean_y
                                        x_ring_vec y_ring_vec boundary))))))"

text \<open>
  \<^verbatim>\<open>update_period\<close> (lines 30-34), the callback of the slider. \<^verbatim>\<open>self.fig.canvas\<close>
  raises when there is no figure.
\<close>

definition update_period :: "real \<Rightarrow> ring_system \<Rightarrow> py_error option \<times> ring_system" where
  "update_period p s =
     (case draw_points (s\<lparr>period := p\<rparr>) of
        (Some e, s') \<Rightarrow> (Some e, s')
      | (None, s') \<Rightarrow> (if fig s' = None then (Some AttributeError, s') else (None, s')))"

text \<open>
  \<^verbatim>\<open>set_period\<close> (lines 36-47). With a figure, the slider is set to the period;
  \<^verbatim>\<open>Slider.set_val\<close> calls the function registered with \<^verbatim>\<open>on_changed\<close>, which is
  \<^verbatim>\<open>update_period\<close>, with that value.
\<close>

definition set_period :: "real \<Rightarrow> real \<Rightarrow> ring_system \<Rightarrow> py_error option \<times> ring_system" where
  "set_period p sh s =
     (let s1 = s\<lparr>shift := sh, period := p\<rparr>
      in if fig s1 = None then (None, s1) else update_period (period s1) s1)"

text \<open>\<^verbatim>\<open>__init__\<close> (lines 9-12): no figure, no samples, period and shift \<open>0\<close>.\<close>

definition RingSystem_init :: ring_system where
  "RingSystem_init =
     snd (set_period 0 0
            (reset_points \<lparr>fig = None, x_data = [], y_data = [], fourier_data = [],
                           period = 0, shift = 0\<rparr>))"

subsection \<open>Notions used to state the properties\<close>

text \<open>
  The ring mapping in the words of the specification: the sample \<open>(x, y)\<close> goes to
  \<open>y \<sdot> (cos \<theta>, sin \<theta>)\<close> with \<open>\<theta> = ((x + shift) / period) \<sdot> 2\<pi>\<close>.
\<close>

definition ring_map :: "real \<Rightarrow> real \<Rightarrow> real \<times> real \<Rightarrow> real \<times> real" where
  "ring_map p sh xy =
     (snd xy * cos (((fst xy + sh) / p) * 2 * pi), snd xy * sin (((fst xy + sh) / p) * 2 * pi))"

text \<open>The arithmetic mean of a list.\<close>

definition mean :: "real list \<Rightarrow> real" where
  "mean xs = sum_list xs / real (length xs)"

text \<open>
  The ring-mapped points of all samples of a state under its period and shift, and the
  pair of the means of their real and of their imaginary parts.
\<close>

definition ring_points :: "ring_system \<Rightarrow> (real \<times> real) list" where
  "ring_points s = map (ring_map (period s) (shift s)) (zip (x_data s) (y_data s))"

definition centroid :: "ring_system \<Rightarrow> real \<times> real" where
  "centroid s = (mean (map fst (ring_points s)), mean (map snd (ring_points s)))"

text \<open>The renderer \<^verbatim>\<open>draw_points\<close> writes to: the present one, or the one \<^verbatim>\<open>setup_plot\<close> makes.\<close>

definition the_plot :: "ring_system \<Rightarrow> renderer" where
  "the_plot s = (case fig s of None \<Rightarrow> empty_plot | Some r \<Rightarrow> r)"

text \<open>
  The states a program can reach: from \<^verbatim>\<open>RingSystem()\<close> by any sequence of calls of the
  methods that touch the state. A call that raises leaves a state too (the one returned
  with the exception).
\<close>

inductive reachable :: "ring_system \<Rightarrow> bool" where
  init: "reachable RingSystem_init"
| add_point: "reachable s \<Longrightarrow> reachable (add_point x y s)"
| add_function: "reachable s \<Longrightarrow> reachable (snd (add_function from_x to_x samples f s))"
| set_period: "reachable s \<Longrightarrow> reachable (snd (set_period p sh s))"
| reset_points: "reachable s \<Longrightarrow> reachable (reset_points s)"
| draw_points: "reachable s \<Longrightarrow> reachable (snd (draw_points s))"
| update_period: "reachable s \<Longrightarrow> reachable (snd (update_period p s))"

section \<open>The ring mapping\<close>

lemma RingSystem_init_eq:
  "RingSystem_init =
     \<lparr>fig = None, x_data = [], y_data = [], fourier_data = [], period = 0, shift = 0\<rparr>"
  by (simp add: RingSystem_init_def set_period_def reset_points_def)

lemma atan2_zero_pos: "0 < x \<Longrightarrow> atan2 0 x = 0"
  by (simp add: atan2_def)

text \<open>
  Euler's formula for the power the code writes: \<open>e\<close> to an imaginary exponent lies on
  the unit circle. The exponent \<open>0\<close> takes the integer branch, every other one the polar
  branch, where the modulus is \<open>e\<^sup>0 / exp 0\<close> and the phase is \<open>t \<sdot> ln e\<close>.
\<close>

lemma complex_pow_e_imag:
  "complex_pow (Complex math_e 0) (Complex 0 t) = Inr (Complex (cos t) (sin t))"
proof (cases "t = 0")
  case True
  then show ?thesis
    by (simp add: complex_pow_def c_powi_def complex_eq_iff)
next
  case False
  have e: "sqrt ((exp (1::real))\<^sup>2) = exp 1"
    by simp
  from False show ?thesis
    by (simp add: complex_pow_def c_pow_def math_e_def atan2_zero_pos e Let_def)
qed

lemma coordinate_to_ring_eq:
  "period s \<noteq> 0 \<Longrightarrow>
   coordinate_to_ring s x y =
     Inr (y * cos (((x + shift s) / period s) * 2 * pi),
          y * sin (((x + shift s) / period s) * 2 * pi))"
  by (simp add: coordinate_to_ring_def complex_pow_e_imag math_pi_def Let_def)

lemma polar_norm: "(y * cos t)\<^sup>2 + (y * sin t)\<^sup>2 = y\<^sup>2" for y t :: real
proof -
  have "(y * cos t)\<^sup>2 + (y * sin t)\<^sup>2 = y\<^sup>2 * ((sin t)\<^sup>2 + (cos t)\<^sup>2)"
    by (simp only: power_mult_distrib distrib_left add.commute)
  also have "\<dots> = y\<^sup>2"
    by (simp only: sin_cos_squared_add mult_1_right)
  finally show ?thesis .
qed

text \<open>
  C1. For every \<open>x\<close>, \<open>y\<close>, shift and every period other than \<open>0\<close>,
  \<^verbatim>\<open>coordinate_to_ring\<close> returns the pair \<open>(y \<sdot> cos \<theta>, y \<sdot> sin \<theta>)\<close> with
  \<open>\<theta> = ((x + shift) / period) \<sdot> 2\<pi>\<close>.
\<close>

theorem coordinate_to_ring_polar:
  fixes s :: ring_system and x y :: real
  assumes "period s \<noteq> 0"
  shows "coordinate_to_ring s x y =
           (let \<theta> = ((x + shift s) / period s) * 2 * pi
            in Inr (y * cos \<theta>, y * sin \<theta>))"
  using assms
  by (simp add: coordinate_to_ring_def complex_pow_e_imag math_pi_def Let_def)

theorem coordinate_to_ring_polar_witness:
  "period (RingSystem_init\<lparr>period := 4, shift := 1\<rparr>) \<noteq> 0 \<and>
   coordinate_to_ring (RingSystem_init\<lparr>period := 4, shift := 1\<rparr>) 0 3 = Inr (0, 3)"
  using coordinate_to_ring_polar
          [where s = "RingSystem_init\<lparr>period := 4, shift := 1\<rparr>" and x = 0 and y = 3]
  by (simp add: RingSystem_init_eq)

text \<open>
  C7. For every \<open>x\<close>, \<open>y\<close>, shift and every period greater than \<open>0\<close>, the point that
  \<^verbatim>\<open>coordinate_to_ring\<close> returns has Euclidean magnitude \<open>|y|\<close>.
\<close>

theorem coordinate_to_ring_magnitude:
  fixes s :: ring_system and x y :: real
  assumes "0 < period s"
  shows "\<exists>a b. coordinate_to_ring s x y = Inr (a, b) \<and> sqrt (a\<^sup>2 + b\<^sup>2) = \<bar>y\<bar>"
proof -
  from assms have "period s \<noteq> 0"
    by simp
  then show ?thesis
    by (simp add: coordinate_to_ring_eq polar_norm)
qed

theorem coordinate_to_ring_magnitude_witness:
  "0 < period (RingSystem_init\<lparr>period := 5\<rparr>) \<and>
   (\<exists>a b. coordinate_to_ring (RingSystem_init\<lparr>period := 5\<rparr>) 1 (- 2) = Inr (a, b) \<and>
      sqrt (a\<^sup>2 + b\<^sup>2) = 2)"
  using coordinate_to_ring_magnitude
          [where s = "RingSystem_init\<lparr>period := 5\<rparr>" and x = 1 and y = "- 2"]
  by (simp add: RingSystem_init_eq)

section \<open>Recomputing the ring\<close>

lemma py_max_eq: "xs \<noteq> [] \<Longrightarrow> py_max xs = Inr (Max (set xs))"
proof (cases xs)
  case (Cons x xs')
  then show ?thesis
    by (simp only: py_max.simps Max.set_eq_fold)
qed simp

lemma py_min_eq: "xs \<noteq> [] \<Longrightarrow> py_min xs = Inr (Min (set xs))"
proof (cases xs)
  case (Cons x xs')
  then show ?thesis
    by (simp only: py_min.simps Min.set_eq_fold)
qed simp

lemma sum_list_divide: "sum_list (map (\<lambda>a. a / c) xs) = sum_list xs / c" for c :: real
  by (induction xs) (simp_all add: add_divide_distrib)

lemma coordinate_to_ring_map:
  "period s \<noteq> 0 \<Longrightarrow> coordinate_to_ring s x y = Inr (ring_map (period s) (shift s) (x, y))"
  by (simp add: coordinate_to_ring_eq ring_map_def)

lemma ring_loop_eq:
  assumes "period s \<noteq> 0" and "length xs = length ys"
  shows "ring_loop s n m xs ys (mx, my, xv, yv) =
           Inr (mx + sum_list (map (\<lambda>q. fst (ring_map (period s) (shift s) q) / real n) (zip xs ys)),
                my + sum_list (map (\<lambda>q. snd (ring_map (period s) (shift s) q) / real m) (zip xs ys)),
                xv @ map (\<lambda>q. fst (ring_map (period s) (shift s) q)) (zip xs ys),
                yv @ map (\<lambda>q. snd (ring_map (period s) (shift s) q)) (zip xs ys))"
  using assms(2)
proof (induction xs ys arbitrary: mx my xv yv rule: list_induct2)
  case Nil
  show ?case by simp
next
  case (Cons x xs y ys)
  obtain a b where ab: "ring_map (period s) (shift s) (x, y) = (a, b)"
    by (cases "ring_map (period s) (shift s) (x, y)")
  show ?case
    by (simp add: coordinate_to_ring_map [OF assms(1)] ab Cons.IH add.assoc)
qed

lemma ring_loop_short:
  "length ys < length xs \<Longrightarrow> period s \<noteq> 0 \<Longrightarrow> ring_loop s n m xs ys acc = Inl IndexError"
proof (induction s n m xs ys acc rule: ring_loop.induct)
  case (3 s n m x xs y ys mean_x mean_y x_ring_vec y_ring_vec)
  then show ?case
    by (simp add: coordinate_to_ring_eq)
qed simp_all

lemma ring_loop_cong:
  "period s = period s' \<Longrightarrow> shift s = shift s' \<Longrightarrow>
   ring_loop s n m xs ys acc = ring_loop s' n m xs ys acc"
proof (induction s n m xs ys acc rule: ring_loop.induct)
  case (3 s n m x xs y ys mean_x mean_y x_ring_vec y_ring_vec)
  have "coordinate_to_ring s x y = coordinate_to_ring s' x y"
    using 3(2,3) by (simp add: coordinate_to_ring_def)
  with 3 show ?case
    by (simp split: sum.splits prod.splits)
qed simp_all

lemma auto_period_nonzero: "period s \<noteq> 0 \<Longrightarrow> auto_period s = (None, s)"
  by (simp add: auto_period_def)

lemma auto_period_zero:
  "period s = 0 \<Longrightarrow> x_data s \<noteq> [] \<Longrightarrow>
   auto_period s =
     (None, s\<lparr>period := Max (set (x_data s)) - Min (set (x_data s)),
               shift := - Min (set (x_data s))\<rparr>)"
  by (simp add: auto_period_def py_max_eq py_min_eq)

lemma auto_period_idem:
  "x_data s \<noteq> [] \<Longrightarrow> auto_period (snd (auto_period s)) = (None, snd (auto_period s))"
  by (cases "period s = 0") (simp_all add: auto_period_zero auto_period_nonzero auto_period_def py_max_eq py_min_eq)

lemma auto_period_fst: "x_data s \<noteq> [] \<Longrightarrow> fst (auto_period s) = None"
  by (cases "period s = 0") (simp_all add: auto_period_zero auto_period_nonzero)

lemma auto_period_frame:
  "x_data (snd (auto_period s)) = x_data s"
  "y_data (snd (auto_period s)) = y_data s"
  "fig (snd (auto_period s)) = fig s"
  "fourier_data (snd (auto_period s)) = fourier_data s"
  by (simp_all add: auto_period_def split: sum.splits)

lemma draw_points_auto:
  assumes "x_data s \<noteq> []"
  shows "draw_points s = draw_points (snd (auto_period s))"
proof -
  obtain s1 where s1: "auto_period s = (None, s1)"
    using auto_period_fst [OF assms] by (cases "auto_period s") simp
  have "auto_period s1 = (None, s1)"
    using auto_period_idem [OF assms] s1 by simp
  moreover have "x_data s1 = x_data s"
    using auto_period_frame(1) [of s] s1 by simp
  ultimately show ?thesis
    using assms s1 by (simp add: draw_points_def)
qed

lemma draw_points_empty: "x_data s = [] \<Longrightarrow> draw_points s = (None, s)"
  by (simp add: draw_points_def)

lemma draw_points_ok:
  assumes "x_data s \<noteq> []" and "length (x_data s) = length (y_data s)" and "period s \<noteq> 0"
  shows "draw_points s =
           (None, update_plots s (the_plot s)
                    (fst (centroid s)) (snd (centroid s))
                    (map fst (ring_points s)) (map snd (ring_points s))
                    (Max (set (y_data s))))"
proof -
  have y: "y_data s \<noteq> []"
    using assms(1,2) by auto
  have loop: "ring_loop s (length (x_data s)) (length (y_data s)) (x_data s) (y_data s) (0, 0, [], []) =
        Inr (fst (centroid s), snd (centroid s), map fst (ring_points s), map snd (ring_points s))"
    using assms(2)
    by (simp add: ring_loop_eq [OF assms(3) assms(2)] centroid_def mean_def ring_points_def
          sum_list_divide [symmetric] comp_def)
  show ?thesis
    using assms(1)
    by (cases "fig s")
      (simp_all add: draw_points_def auto_period_nonzero [OF assms(3)] loop setup_plot_def
          py_max_eq [OF y] Let_def the_plot_def update_plots_def)
qed

lemma draw_points_frame:
  "x_data (snd (draw_points s)) = x_data s"
  "y_data (snd (draw_points s)) = y_data s"
  by (auto simp: draw_points_def auto_period_def setup_plot_def update_plots_def Let_def
      split: sum.splits prod.splits option.splits if_splits)

lemma draw_points_period:
  "x_data s \<noteq> [] \<Longrightarrow> period (snd (draw_points s)) = period (snd (auto_period s))"
  "x_data s \<noteq> [] \<Longrightarrow> shift (snd (draw_points s)) = shift (snd (auto_period s))"
  by (auto simp: draw_points_def  setup_plot_def update_plots_def Let_def
      split: sum.splits prod.splits option.splits if_splits)

lemma draw_points_twice:
  assumes "period s \<noteq> 0"
  shows "fourier_data (snd (draw_points (snd (draw_points s)))) = fourier_data (snd (draw_points s))"
proof (cases "x_data s = []")
  case True
  then show ?thesis
    by (simp add: draw_points_empty)
next
  case False
  let ?loop = "\<lambda>t. ring_loop t (length (x_data s)) (length (y_data s)) (x_data s) (y_data s) (0, 0, [], [])"
  have cong: "?loop t = ?loop s" if "period t = period s" "shift t = shift s" for t
    using that by (rule ring_loop_cong)
  show ?thesis
  proof (cases "?loop s")
    case (Inl e)
    then have "draw_points s = (Some e, s)"
      using False by (simp add: draw_points_def auto_period_nonzero [OF assms])
    then show ?thesis
      by simp
  next
    case (Inr acc)
    obtain mx my xv yv where acc: "acc = (mx, my, xv, yv)"
      by (cases acc)
    let ?s2 = "s\<lparr>fig := Some (the_plot s)\<rparr>"
    have s2: "(if fig s = None then setup_plot s else s) = ?s2"
      by (cases "fig s") (simp_all add: setup_plot_def the_plot_def)
    show ?thesis
    proof (cases "py_max (y_data s)")
      case (Inl e)
      have 1: "draw_points s = (Some e, ?s2)"
        using False Inr acc Inl
        by (simp add: draw_points_def auto_period_nonzero [OF assms] s2)
      have "?loop ?s2 = ?loop s"
        by (rule cong) simp_all
      then have "draw_points ?s2 = (Some e, ?s2)"
        using False Inr acc Inl assms
        by (simp add: draw_points_def auto_period_nonzero)
      with 1 show ?thesis
        by simp
    next
      case (Inr b)
      let ?s3 = "update_plots s (the_plot s) mx my xv yv b"
      have 1: "draw_points s = (None, ?s3)"
        using False \<open>?loop s = Inr acc\<close> acc Inr
        by (simp add: draw_points_def auto_period_nonzero [OF assms] s2 update_plots_def)
      have f3: "x_data ?s3 = x_data s" "y_data ?s3 = y_data s" "period ?s3 = period s"
        "shift ?s3 = shift s" "fig ?s3 \<noteq> None"
        by (simp_all add: update_plots_def Let_def)
      have "?loop ?s3 = ?loop s"
        by (rule cong) (simp_all add: f3)
      then have "\<exists>r. draw_points ?s3 = (None, update_plots ?s3 r mx my xv yv b)"
        using False \<open>?loop s = Inr acc\<close> acc Inr assms f3
        by (auto simp add: draw_points_def auto_period_nonzero)
      then obtain r where 2: "draw_points ?s3 = (None, update_plots ?s3 r mx my xv yv b)"
        by blast
      have "fourier_data (update_plots ?s3 r mx my xv yv b) = fourier_data ?s3"
        by (simp add: update_plots_def Let_def)
      with 1 2 show ?thesis
        by simp
    qed
  qed
qed

text \<open>
  C8. With no samples, \<^verbatim>\<open>draw_points\<close> does nothing: it raises nothing and leaves the
  samples, the period, the shift and the dictionary (the whole state) as they were.
\<close>

theorem draw_points_no_samples:
  assumes "x_data s = []"
  shows "draw_points s = (None, s)"
  using assms by (simp add: draw_points_def)

theorem draw_points_no_samples_witness:
  "x_data RingSystem_init = [] \<and> draw_points RingSystem_init = (None, RingSystem_init)"
  using draw_points_no_samples [of RingSystem_init]
  by (simp add: RingSystem_init_eq)

lemma ring_points_cong:
  "period t = period s \<Longrightarrow> shift t = shift s \<Longrightarrow> x_data t = x_data s \<Longrightarrow>
   y_data t = y_data s \<Longrightarrow> ring_points t = ring_points s"
  by (simp add: ring_points_def)

text \<open>
  C3. For a non-empty sample set and a resolved period other than \<open>0\<close>,
  \<^verbatim>\<open>draw_points\<close> succeeds, and the centroid it shows and records under the period is
  the arithmetic mean of the real parts and the arithmetic mean of the imaginary parts
  of the ring-mapped points of all samples, which are what \<^verbatim>\<open>coordinate_to_ring\<close>
  returns for the samples under the resolved period and shift.
\<close>

theorem draw_points_centroid:
  assumes "x_data s \<noteq> []"
    and "length (x_data s) = length (y_data s)"
    and "period (snd (auto_period s)) \<noteq> 0"
  shows "\<exists>s' r.
           draw_points s = (None, s') \<and> fig s' = Some r \<and> x_data s' = x_data s \<and>
           y_data s' = y_data s \<and>
           map (\<lambda>(x, y). coordinate_to_ring s' x y) (zip (x_data s') (y_data s')) =
             map Inr (ring_points s') \<and>
           scatter_offsets r = [(mean (map fst (ring_points s')), mean (map snd (ring_points s')))] \<and>
           map_of (fourier_data s') (period s') =
             Some (mean (map fst (ring_points s')), mean (map snd (ring_points s')))"
proof -
  define s1 where "s1 = snd (auto_period s)"
  define s' where "s' = update_plots s1 (the_plot s1) (fst (centroid s1)) (snd (centroid s1))
               (map fst (ring_points s1)) (map snd (ring_points s1)) (Max (set (y_data s1)))"
  have x1: "x_data s1 = x_data s" and y1: "y_data s1 = y_data s"
    unfolding s1_def by (rule auto_period_frame)+
  have "draw_points s = draw_points s1"
    unfolding s1_def using assms(1) by (rule draw_points_auto)
  also have "\<dots> = (None, s')"
    unfolding s'_def using assms by (intro draw_points_ok) (simp_all add: x1 y1 s1_def [symmetric])
  finally have d: "draw_points s = (None, s')" .
  have p: "period s' = period s1" "shift s' = shift s1"
    and xy: "x_data s' = x_data s1" "y_data s' = y_data s1"
    by (simp_all add: s'_def update_plots_def Let_def)
  have rp: "ring_points s' = ring_points s1"
    using p xy by (rule ring_points_cong [OF _ _ _ _])
  have "period s' \<noteq> 0"
    using assms(3) by (simp add: p s1_def)
  then have c: "coordinate_to_ring s' x y = Inr (ring_map (period s') (shift s') (x, y))" for x y
    by (rule coordinate_to_ring_map)
  have m: "map (\<lambda>(x, y). coordinate_to_ring s' x y) (zip (x_data s') (y_data s')) =
        map Inr (ring_points s')"
    by (simp add: ring_points_def c split_def)
  have f: "fig s' = Some (the (fig s'))"
    by (simp add: s'_def update_plots_def Let_def)
  have sc: "scatter_offsets (the (fig s')) =
        [(mean (map fst (ring_points s')), mean (map snd (ring_points s')))]"
    unfolding rp by (simp add: s'_def update_plots_def Let_def centroid_def)
  have fd: "map_of (fourier_data s') (period s') =
        Some (mean (map fst (ring_points s')), mean (map snd (ring_points s')))"
    unfolding rp by (simp add: s'_def update_plots_def Let_def centroid_def update_conv')
  from d f m sc fd xy x1 y1 show ?thesis
    by metis
qed

theorem draw_points_centroid_witness:
  "(let s = add_point 1 4 (add_point 0 2 (RingSystem_init\<lparr>period := 1\<rparr>))
    in x_data s \<noteq> [] \<and> length (x_data s) = length (y_data s) \<and>
       period (snd (auto_period s)) \<noteq> 0 \<and>
       (\<exists>s' r. draw_points s = (None, s') \<and> fig s' = Some r \<and>
          ring_points s' = [(2, 0), (4, 0)] \<and>
          scatter_offsets r = [(3, 0)] \<and>
          map_of (fourier_data s') 1 = Some (3, 0)))"
proof -
  let ?s = "add_point 1 4 (add_point 0 2 (RingSystem_init\<lparr>period := 1\<rparr>))"
  have s: "?s = \<lparr>fig = None, x_data = [0, 1], y_data = [2, 4], fourier_data = [],
                   period = 1, shift = 0\<rparr>"
    by (simp add: RingSystem_init_eq add_point_def)
  have h: "x_data ?s \<noteq> []" "length (x_data ?s) = length (y_data ?s)"
    "period (snd (auto_period ?s)) \<noteq> 0"
    by (simp_all add: s auto_period_def)
  from draw_points_centroid [OF h] obtain s' r where
    d: "draw_points ?s = (None, s')" "fig s' = Some r"
      "x_data s' = x_data ?s" "y_data s' = y_data ?s"
      "scatter_offsets r = [(mean (map fst (ring_points s')), mean (map snd (ring_points s')))]"
      "map_of (fourier_data s') (period s') =
         Some (mean (map fst (ring_points s')), mean (map snd (ring_points s')))"
    by blast
  have p: "period s' = 1" "shift s' = 0"
    using draw_points_period [of ?s] d(1) by (simp_all add: s auto_period_def)
  have pts: "ring_points s' = [(2, 0), (4, 0)]"
    by (simp add: ring_points_def d(3,4) p s ring_map_def)
  show ?thesis
    using h d p by (simp add: Let_def pts mean_def)
qed

section \<open>Recomputing twice, and the limits of the axes\<close>

lemma draw_points_keeps_period:
  assumes "period s \<noteq> 0"
  shows "period (snd (draw_points s)) = period s" and "shift (snd (draw_points s)) = shift s"
proof -
  show "period (snd (draw_points s)) = period s"
    by (cases "x_data s = []")
      (simp_all add: draw_points_empty draw_points_period auto_period_nonzero [OF assms])
  show "shift (snd (draw_points s)) = shift s"
    by (cases "x_data s = []")
      (simp_all add: draw_points_empty draw_points_period auto_period_nonzero [OF assms])
qed

lemma draw_points_fourier_data:
  "fourier_data (snd (draw_points s)) = fourier_data s \<or>
   (\<exists>k v. fourier_data (snd (draw_points s)) = AList.update k v (fourier_data s))"
  by (auto simp: draw_points_def auto_period_def setup_plot_def update_plots_def Let_def
      split: sum.splits prod.splits option.splits if_splits)

lemma draw_points_distinct:
  "distinct (map fst (fourier_data s)) \<Longrightarrow> distinct (map fst (fourier_data (snd (draw_points s))))"
  using draw_points_fourier_data [of s] by (auto simp: distinct_update)

lemma update_period_snd: "snd (update_period p s) = snd (draw_points (s\<lparr>period := p\<rparr>))"
  by (simp add: update_period_def split: prod.splits option.splits)

lemma set_period_snd:
  "snd (set_period p sh s) =
     (if fig s = None then s\<lparr>shift := sh, period := p\<rparr>
      else snd (draw_points (s\<lparr>shift := sh, period := p\<rparr>)))"
  by (simp add: set_period_def update_period_snd Let_def)

lemma set_period_frame:
  "x_data (snd (set_period p sh s)) = x_data s"
  "y_data (snd (set_period p sh s)) = y_data s"
  by (simp_all add: set_period_snd draw_points_frame)

lemma set_period_keeps_period:
  "p \<noteq> 0 \<Longrightarrow> period (snd (set_period p sh s)) = p"
  "p \<noteq> 0 \<Longrightarrow> shift (snd (set_period p sh s)) = sh"
  by (simp_all add: set_period_snd draw_points_keeps_period)

lemma set_period_distinct:
  "distinct (map fst (fourier_data s)) \<Longrightarrow>
   distinct (map fst (fourier_data (snd (set_period p sh s))))"
  using draw_points_distinct [of "s\<lparr>shift := sh, period := p\<rparr>"]
  by (simp add: set_period_snd)

text \<open>
  C5. For every state and every period \<open>p > 0\<close>: after \<^verbatim>\<open>set_period(p)\<close>, two calls of
  \<^verbatim>\<open>draw_points\<close> in a row leave the same dictionary, in particular the same entry
  under \<open>p\<close>; keys that were unique stay unique; and for a non-empty sample set the
  entry under \<open>p\<close> is, both times, the centroid of the samples under \<open>p\<close> and the
  shift (the second call replaces the entry by the same value).
\<close>

theorem set_period_draw_points_twice:
  fixes p sh :: real and s :: ring_system
  assumes "0 < p"
  shows "(let s1 = snd (set_period p sh s);
              s2 = snd (draw_points s1);
              s3 = snd (draw_points s2)
          in fourier_data s3 = fourier_data s2 \<and>
             map_of (fourier_data s3) p = map_of (fourier_data s2) p \<and>
             (distinct (map fst (fourier_data s)) \<longrightarrow> distinct (map fst (fourier_data s3))) \<and>
             (x_data s \<noteq> [] \<and> length (x_data s) = length (y_data s) \<longrightarrow>
                map_of (fourier_data s2) p = Some (centroid (s\<lparr>period := p, shift := sh\<rparr>)) \<and>
                map_of (fourier_data s3) p = Some (centroid (s\<lparr>period := p, shift := sh\<rparr>))))"
proof -
  define s1 where "s1 = snd (set_period p sh s)"
  define s2 where "s2 = snd (draw_points s1)"
  define s3 where "s3 = snd (draw_points s2)"
  from assms have p0: "p \<noteq> 0"
    by simp
  have s1: "period s1 = p" "shift s1 = sh" "x_data s1 = x_data s" "y_data s1 = y_data s"
    unfolding s1_def by (simp_all add: set_period_keeps_period [OF p0] set_period_frame)
  then have "period s1 \<noteq> 0"
    using p0 by simp
  then have idem: "fourier_data s3 = fourier_data s2"
    unfolding s3_def s2_def by (rule draw_points_twice)
  have dist: "distinct (map fst (fourier_data s3))" if "distinct (map fst (fourier_data s))"
    unfolding s3_def s2_def s1_def
    by (intro draw_points_distinct set_period_distinct that)
  have entry: "map_of (fourier_data s2) p = Some (centroid (s\<lparr>period := p, shift := sh\<rparr>))"
    if "x_data s \<noteq> []" "length (x_data s) = length (y_data s)"
  proof -
    have c: "centroid s1 = centroid (s\<lparr>period := p, shift := sh\<rparr>)"
      by (simp add: centroid_def ring_points_def s1)
    have "draw_points s1 =
        (None, update_plots s1 (the_plot s1) (fst (centroid s1)) (snd (centroid s1))
                 (map fst (ring_points s1)) (map snd (ring_points s1)) (Max (set (y_data s1))))"
      using that p0 by (intro draw_points_ok) (simp_all add: s1)
    then have "fourier_data s2 = AList.update p (centroid s1) (fourier_data s1)"
      by (simp add: s2_def update_plots_def Let_def s1)
    then show ?thesis
      by (simp add: update_conv' c)
  qed
  from idem dist entry show ?thesis
    unfolding Let_def s1_def [symmetric] s2_def [symmetric] s3_def [symmetric] by simp
qed

theorem set_period_draw_points_twice_witness:
  "(0::real) < 1 \<and>
   (let s = add_point 1 4 (add_point 0 2 RingSystem_init);
        s1 = snd (set_period 1 0 s);
        s2 = snd (draw_points s1);
        s3 = snd (draw_points s2)
    in distinct (map fst (fourier_data s)) \<and> x_data s \<noteq> [] \<and>
       length (x_data s) = length (y_data s) \<and>
       fourier_data s3 = fourier_data s2 \<and>
       distinct (map fst (fourier_data s3)) \<and>
       map_of (fourier_data s2) 1 = Some (3, 0) \<and>
       map_of (fourier_data s3) 1 = Some (3, 0))"
proof -
  let ?s = "add_point 1 4 (add_point 0 2 RingSystem_init)"
  have s: "?s = \<lparr>fig = None, x_data = [0, 1], y_data = [2, 4], fourier_data = [],
                   period = 0, shift = 0\<rparr>"
    by (simp add: RingSystem_init_eq add_point_def)
  have c: "centroid (?s\<lparr>period := 1, shift := 0\<rparr>) = (3, 0)"
    by (simp add: s centroid_def ring_points_def ring_map_def mean_def)
  have h: "distinct (map fst (fourier_data ?s))" "x_data ?s \<noteq> []"
    "length (x_data ?s) = length (y_data ?s)"
    by (simp_all add: s)
  have p: "(0::real) < 1"
    by simp
  note t = set_period_draw_points_twice [where p = 1 and sh = 0 and s = ?s, OF p, unfolded Let_def]
  from t h have "fourier_data (snd (draw_points (snd (draw_points (snd (set_period 1 0 ?s)))))) =
      fourier_data (snd (draw_points (snd (set_period 1 0 ?s))))"
    and "distinct (map fst (fourier_data (snd (draw_points (snd (draw_points (snd (set_period 1 0 ?s))))))))"
    and "map_of (fourier_data (snd (draw_points (snd (set_period 1 0 ?s))))) 1 = Some (3, 0)"
    and "map_of (fourier_data (snd (draw_points (snd (draw_points (snd (set_period 1 0 ?s))))))) 1 =
      Some (3, 0)"
    unfolding c by blast+
  with h p show ?thesis
    unfolding Let_def by blast
qed

text \<open>
  C6. The boundary that \<^verbatim>\<open>draw_points\<close> passes to the axes is \<^verbatim>\<open>max(self.y_data)\<close>. At
  the samples \<open>(0, -3)\<close> and \<open>(1, 1)\<close> under the period \<open>1\<close> the limits of the axes become
  \<open>(-1, 1)\<close>, while the largest \<open>|y|\<close> is \<open>3\<close>.
\<close>

theorem draw_points_boundary_negative:
  "(let s = add_point 1 1 (add_point 0 (- 3) (snd (set_period 1 0 RingSystem_init)))
    in \<exists>s' r. draw_points s = (None, s') \<and> fig s' = Some r \<and>
         ax0_ylim r = (- 1, 1) \<and> ax0_xlim r = (- 1, 1) \<and> ax1_ylim r = (- 1, 1) \<and>
         Max (abs ` set (y_data s)) = 3)"
proof -
  let ?s = "add_point 1 1 (add_point 0 (- 3) (snd (set_period 1 0 RingSystem_init)))"
  have s: "?s = \<lparr>fig = None, x_data = [0, 1], y_data = [- 3, 1], fourier_data = [],
                   period = 1, shift = 0\<rparr>"
    by (simp add: RingSystem_init_eq add_point_def set_period_def)
  have "draw_points ?s =
      (None, update_plots ?s (the_plot ?s) (fst (centroid ?s)) (snd (centroid ?s))
               (map fst (ring_points ?s)) (map snd (ring_points ?s)) (Max (set (y_data ?s))))"
    by (rule draw_points_ok) (simp_all add: s)
  moreover have "Max (set (y_data ?s)) = 1" "Max (abs ` set (y_data ?s)) = 3"
    by (simp_all add: s)
  ultimately show ?thesis
    by (simp add: Let_def update_plots_def)
qed

section \<open>Sampling a function\<close>

lemma fold_add_point:
  "fold (\<lambda>x. add_point x (f x)) xs s = s\<lparr>x_data := x_data s @ xs, y_data := y_data s @ map f xs\<rparr>"
  by (induction xs arbitrary: s) (simp_all add: add_point_def)

lemma np_arange_samples:
  fixes a b :: real and n :: int
  assumes "0 < n" and "a \<noteq> b"
  shows "np_arange a (b + (b - a) / of_int n) ((b - a) / of_int n) =
           Inr (map (\<lambda>i. a + real i * ((b - a) / of_int n)) [0..<Suc (nat n)])"
proof -
  let ?step = "(b - a) / of_int n"
  from assms have step: "?step \<noteq> 0"
    by simp
  have "b + ?step - a = (b - a) + ?step"
    by simp
  then have "(b + ?step - a) / ?step = (b - a) / ?step + ?step / ?step"
    by (simp only: add_divide_distrib)
  also have "(b - a) / ?step = of_int n"
    using assms by simp
  also have "?step / ?step = 1"
    using step by (rule divide_self)
  finally have "(b + ?step - a) / ?step = of_int n + 1" .
  also have "of_int n + (1::real) = of_int (n + 1)"
    by simp
  finally have "\<lceil>(b + ?step - a) / ?step\<rceil> = n + 1"
    by (simp only: ceiling_of_int)
  moreover have "nat (n + 1) = Suc (nat n)"
    using assms(1) by simp
  ultimately show ?thesis
    using step by (simp add: np_arange_def)
qed

lemma add_function_eq:
  fixes a b :: real and n :: int
  assumes "0 < n" and "a \<noteq> b"
  shows "add_function a b n f s =
           (None, s\<lparr>x_data := map (\<lambda>i. a + real i * ((b - a) / of_int n)) [0..<Suc (nat n)],
                     y_data := map f (map (\<lambda>i. a + real i * ((b - a) / of_int n)) [0..<Suc (nat n)]),
                     fourier_data := []\<rparr>)"
proof -
  from assms(1) have "n \<noteq> 0"
    by simp
  then show ?thesis
    by (simp add: add_function_def Let_def np_arange_samples [OF assms] fold_add_point
        reset_points_def del: upt_Suc)
qed

lemma add_function_length:
  "length (x_data (snd (add_function a b n f s))) = length (y_data (snd (add_function a b n f s)))"
  by (simp add: add_function_def Let_def fold_add_point reset_points_def split: sum.splits)





text \<open>
  C4. The number of samples \<^verbatim>\<open>add_function\<close> generates: \<^verbatim>\<open>add_function(0, 1, 1, f)\<close>
  leaves the two samples \<open>(0, f 0)\<close> and \<open>(1, f 1)\<close>, and
  \<^verbatim>\<open>add_function(-10, 10, 1000, f)\<close> leaves \<open>1001\<close> samples: one more than \<^verbatim>\<open>samples\<close>.
\<close>

theorem add_function_sample_count:
  fixes f :: "real \<Rightarrow> real" and s :: ring_system
  shows "(\<exists>s'. add_function 0 1 1 f s = (None, s') \<and> x_data s' = [0, 1] \<and>
            y_data s' = [f 0, f 1]) \<and>
         length (x_data (snd (add_function (- 10) 10 1000 f s))) = 1001"
proof -
  have "add_function 0 1 1 f s = (None, s\<lparr>x_data := [0, 1], y_data := [f 0, f 1], fourier_data := []\<rparr>)"
    by (subst add_function_eq) simp_all
  moreover have "length (x_data (snd (add_function (- 10) 10 1000 f s))) = 1001"
    by (subst add_function_eq) (simp_all del: upt_Suc)
  ultimately show ?thesis
    by simp
qed

section \<open>Setting the period\<close>

lemma draw_points_no_error:
  assumes "length (x_data s) = length (y_data s)" and "period s \<noteq> 0"
  shows "fst (draw_points s) = None"
proof (cases "x_data s = []")
  case True
  then show ?thesis
    by (simp add: draw_points_empty)
next
  case False
  then show ?thesis
    using assms by (simp add: draw_points_ok)
qed

lemma draw_points_fig:
  "fig s \<noteq> None \<Longrightarrow> fig (snd (draw_points s)) \<noteq> None"
  by (auto simp: draw_points_def auto_period_def setup_plot_def update_plots_def Let_def
      split: sum.splits prod.splits option.splits if_splits)

lemma update_period_no_error:
  assumes "length (x_data s) = length (y_data s)" and "p \<noteq> 0" and "fig s \<noteq> None"
  shows "fst (update_period p s) = None"
proof -
  let ?t = "s\<lparr>period := p\<rparr>"
  have "fst (draw_points ?t) = None"
    using assms(1,2) by (intro draw_points_no_error) simp_all
  moreover have "fig (snd (draw_points ?t)) \<noteq> None"
    using assms(3) by (intro draw_points_fig) simp
  ultimately show ?thesis
    by (cases "draw_points ?t") (simp add: update_period_def)
qed

text \<open>
  C9, as the code has it. \<^verbatim>\<open>set_period\<close> checks nothing: for every negative period \<open>p\<close>
  and every state whose two sample lists have the same length, \<^verbatim>\<open>set_period(p, shift)\<close>
  raises nothing and leaves \<open>p\<close> as the period and the given shift.
\<close>

theorem set_period_negative_accepted:
  fixes p sh :: real and s :: ring_system
  assumes "p < 0" and "length (x_data s) = length (y_data s)"
  shows "fst (set_period p sh s) = None \<and>
         period (snd (set_period p sh s)) = p \<and>
         shift (snd (set_period p sh s)) = sh"
proof -
  from assms(1) have p0: "p \<noteq> 0"
    by simp
  have "fst (set_period p sh s) = None"
  proof (cases "fig s = None")
    case True
    then show ?thesis
      by (simp add: set_period_def)
  next
    case False
    then have "fst (update_period p (s\<lparr>shift := sh, period := p\<rparr>)) = None"
      using assms(2) p0 by (intro update_period_no_error) simp_all
    with False show ?thesis
      by (simp add: set_period_def Let_def)
  qed
  then show ?thesis
    by (simp add: set_period_keeps_period [OF p0])
qed

theorem set_period_negative_accepted_witness:
  "(- 2 :: real) < 0 \<and>
   length (x_data (add_point 0 1 RingSystem_init)) =
     length (y_data (add_point 0 1 RingSystem_init)) \<and>
   fst (set_period (- 2) 3 (add_point 0 1 RingSystem_init)) = None \<and>
   period (snd (set_period (- 2) 3 (add_point 0 1 RingSystem_init))) = - 2 \<and>
   shift (snd (set_period (- 2) 3 (add_point 0 1 RingSystem_init))) = 3"
proof -
  have h: "(- 2 :: real) < 0"
    "length (x_data (add_point 0 1 RingSystem_init)) =
       length (y_data (add_point 0 1 RingSystem_init))"
    by (simp_all add: add_point_def RingSystem_init_eq)
  from set_period_negative_accepted [OF h] h show ?thesis
    by simp
qed

text \<open>
  C9, as stated, fails: on a new system \<^verbatim>\<open>set_period(-1)\<close> raises nothing, and the
  period is \<open>-1\<close> afterwards.
\<close>

theorem set_period_negative_counterexample:
  "fst (set_period (- 1) 0 RingSystem_init) = None \<and>
   period (snd (set_period (- 1) 0 RingSystem_init)) = - 1"
  by (simp add: set_period_def RingSystem_init_eq)

section \<open>The two sample lists\<close>

lemma add_point_length:
  "length (x_data s) = length (y_data s) \<Longrightarrow>
   length (x_data (add_point x y s)) = length (y_data (add_point x y s))"
  by (simp add: add_point_def)

lemma update_period_frame:
  "x_data (snd (update_period p s)) = x_data s"
  "y_data (snd (update_period p s)) = y_data s"
  by (simp_all add: update_period_snd draw_points_frame)

text \<open>
  C10. Every operation (\<^verbatim>\<open>add_point\<close>, \<^verbatim>\<open>add_function\<close>, \<^verbatim>\<open>set_period\<close>,
  \<^verbatim>\<open>reset_points\<close>, \<^verbatim>\<open>draw_points\<close>, and the slider's \<^verbatim>\<open>update_period\<close>) keeps the
  x-coordinates and the y-coordinates of the samples at the same length, and the lengths
  are the same in every reachable state.
\<close>

theorem sample_lists_same_length:
  fixes s :: ring_system
  shows "(length (x_data s) = length (y_data s) \<longrightarrow>
            (\<forall>x y. length (x_data (add_point x y s)) = length (y_data (add_point x y s))) \<and>
            (\<forall>from_x to_x samples f.
               length (x_data (snd (add_function from_x to_x samples f s))) =
               length (y_data (snd (add_function from_x to_x samples f s)))) \<and>
            (\<forall>p sh. length (x_data (snd (set_period p sh s))) =
                    length (y_data (snd (set_period p sh s)))) \<and>
            length (x_data (reset_points s)) = length (y_data (reset_points s)) \<and>
            length (x_data (snd (draw_points s))) = length (y_data (snd (draw_points s))) \<and>
            (\<forall>p. length (x_data (snd (update_period p s))) =
                 length (y_data (snd (update_period p s))))) \<and>
         (reachable s \<longrightarrow> length (x_data s) = length (y_data s))"
proof -
  have "length (x_data s) = length (y_data s)" if "reachable s"
    using that
  proof induction
    case init
    show ?case
      by (simp add: RingSystem_init_eq)
  next
    case (add_point s x y)
    then show ?case
      by (simp add: add_point_length)
  next
    case (add_function s from_x to_x samples f)
    show ?case
      by (rule add_function_length)
  next
    case (set_period s p sh)
    then show ?case
      by (simp add: set_period_frame)
  next
    case (reset_points s)
    show ?case
      by (simp add: reset_points_def)
  next
    case (draw_points s)
    then show ?case
      by (simp add: draw_points_frame)
  next
    case (update_period s p)
    then show ?case
      by (simp add: update_period_frame)
  qed
  then show ?thesis
    by (simp add: add_point_length add_function_length set_period_frame reset_points_def
        draw_points_frame update_period_frame)
qed

theorem sample_lists_same_length_witness:
  "(let s = snd (draw_points (snd (set_period 5 0 (add_point 1 2 (add_point 0 3 RingSystem_init)))))
    in reachable s \<and> length (x_data s) = length (y_data s) \<and>
       length (x_data (add_point 7 8 s)) = length (y_data (add_point 7 8 s)) \<and>
       x_data s = [0, 1] \<and> y_data s = [3, 2])"
proof -
  let ?s = "snd (draw_points (snd (set_period 5 0 (add_point 1 2 (add_point 0 3 RingSystem_init)))))"
  have r: "reachable ?s"
    by (intro reachable.intros)
  have xy: "x_data ?s = [0, 1]" "y_data ?s = [3, 2]"
    by (simp_all add: draw_points_frame set_period_frame add_point_def RingSystem_init_eq)
  from sample_lists_same_length [of ?s] r
  have "length (x_data ?s) = length (y_data ?s)"
    and "length (x_data (add_point 7 8 ?s)) = length (y_data (add_point 7 8 ?s))"
    by blast+
  with r xy show ?thesis
    unfolding Let_def by blast
qed

end
